theory Spec2Isabelle
  imports Complex_Main "HOL-Library.Sublist"
begin

section \<open>Python values used by the daemon\<close>

text \<open>
  Strings are byte strings (\<^typ>\<open>string\<close>); the case mapping and the whitespace class are
  the ASCII parts of Python's \<^verbatim>\<open>str.lower\<close> and \<^verbatim>\<open>str.strip\<close>.
  A path is the list of its components, as \<^verbatim>\<open>Path.parts\<close> gives them.
  An aware \<^verbatim>\<open>datetime\<close> is identified with its instant, counted in microseconds;
  a \<^verbatim>\<open>timedelta\<close> is a number of microseconds.
\<close>

datatype py_error =
    KeyError string
  | FileNotFoundError
  | FileExistsError
  | NotADirectoryError
  | IsADirectoryError
  | PermissionError
  | OSError

type_synonym path = "string list"
type_synonym datetime = int
type_synonym timedelta = int

definition lower_char :: "char \<Rightarrow> char" where
  "lower_char c =
     (case map_of (zip ''ABCDEFGHIJKLMNOPQRSTUVWXYZ'' ''abcdefghijklmnopqrstuvwxyz'') c of
        None \<Rightarrow> c
      | Some d \<Rightarrow> d)"

definition lower :: "string \<Rightarrow> string" where
  "lower s = map lower_char s"

definition lstrip_chars :: "string \<Rightarrow> string \<Rightarrow> string" where
  "lstrip_chars cs s = dropWhile (\<lambda>c. c \<in> set cs) s"

definition join :: "string \<Rightarrow> string list \<Rightarrow> string" where
  "join sep xs = (case xs of [] \<Rightarrow> [] | y # ys \<Rightarrow> foldl (\<lambda>acc x. acc @ sep @ x) y ys)"

definition timedelta_days :: "int \<Rightarrow> timedelta" where
  "timedelta_days d = d * 86400000000"

definition timedelta_hours :: "int \<Rightarrow> timedelta" where
  "timedelta_hours h = h * 3600000000"

subsection \<open>pathlib: name, suffix, stem\<close>

definition rfind :: "string \<Rightarrow> char \<Rightarrow> nat option" where
  "rfind s c =
     (if c \<in> set s then Some (length s - 1 - length (takeWhile (\<lambda>x. x \<noteq> c) (rev s)))
      else None)"

definition path_name :: "path \<Rightarrow> string" where
  "path_name p = (if p = [] then [] else last p)"

text \<open>
  \<^verbatim>\<open>i = name.rfind('.')\<close>; the suffix is \<^verbatim>\<open>name[i:]\<close> when
  \<^verbatim>\<open>0 < i < len(name) - 1\<close> and empty otherwise; the stem is the rest.
\<close>

definition name_suffix :: "string \<Rightarrow> string" where
  "name_suffix nm =
     (case rfind nm CHR ''.'' of
        None \<Rightarrow> []
      | Some i \<Rightarrow> if 0 < i \<and> i + 1 < length nm then drop i nm else [])"

definition name_stem :: "string \<Rightarrow> string" where
  "name_stem nm =
     (case rfind nm CHR ''.'' of
        None \<Rightarrow> nm
      | Some i \<Rightarrow> if 0 < i \<and> i + 1 < length nm then take i nm else nm)"

section \<open>Downloads Janitor: classification\<close>

definition images :: "string list" where
  "images = [''png'', ''jpg'', ''jpeg'', ''gif'', ''webp'', ''svg'', ''heic'', ''tiff'', ''bmp'']"

definition videos :: "string list" where
  "videos = [''mp4'', ''mov'', ''mkv'', ''avi'', ''webm'', ''m4v'']"

definition audio :: "string list" where
  "audio = [''mp3'', ''m4a'', ''aac'', ''wav'', ''flac'', ''ogg'']"

definition docs :: "string list" where
  "docs = [''pdf'', ''doc'', ''docx'', ''xls'', ''xlsx'', ''ppt'', ''pptx'', ''txt'', ''md'',
           ''rtf'', ''csv'', ''mdx'']"

definition archives :: "string list" where
  "archives = [''zip'', ''rar'', ''7z'', ''tar'', ''gz'', ''bz2'', ''xz'']"

definition code :: "string list" where
  "code = [''js'', ''jsx'', ''ts'', ''tsx'', ''py'', ''json'', ''yml'', ''yaml'', ''toml'',
           ''ini'', ''sql'', ''sh'']"

definition apps :: "string list" where
  "apps = [''dmg'', ''pkg'']"

definition classify_ext :: "string \<Rightarrow> string" where
  "classify_ext ext =
     (if ext \<in> set images then ''images''
      else if ext \<in> set videos then ''videos''
      else if ext \<in> set audio then ''audio''
      else if ext \<in> set docs then ''docs''
      else if ext \<in> set archives then ''archives''
      else if ext \<in> set code then ''code''
      else if ext \<in> set apps then ''apps''
      else ''other'')"

definition classify :: "path \<Rightarrow> string" where
  "classify p = classify_ext (lstrip_chars ''.'' (lower (name_suffix (path_name p))))"

definition categories :: "string set" where
  "categories = {''images'', ''videos'', ''audio'', ''docs'', ''archives'', ''code'', ''apps'',
                 ''other''}"


lemma classify_ext_in_categories: "classify_ext ext \<in> categories"
  by (simp add: classify_ext_def categories_def)

lemma classify_ext_default:
  "ext \<notin> set (images @ videos @ audio @ docs @ archives @ code @ apps) \<Longrightarrow>
   classify_ext ext = ''other''"
  by (simp add: classify_ext_def)

lemma classify_photo: "classify [''downloads'', ''photo.JPG''] = ''images''"
  by (simp add: classify_def classify_ext_def path_name_def name_suffix_def rfind_def
      lower_def lower_char_def lstrip_chars_def images_def)

text \<open>
  C8. Classification is a total function of the lowercased extension: every path gets
  exactly one category of the closed set; an extension outside the seven tables gets
  \<open>other\<close>; two names whose suffixes agree after lowercasing get the same category;
  \<open>photo.JPG\<close> is an image.
\<close>

theorem classify_total:
  "classify p \<in> categories
   \<and> (lstrip_chars ''.'' (lower (name_suffix (path_name p)))
        \<notin> set (images @ videos @ audio @ docs @ archives @ code @ apps)
      \<longrightarrow> classify p = ''other'')
   \<and> (lower (name_suffix (path_name p)) = lower (name_suffix (path_name q))
      \<longrightarrow> classify p = classify q)
   \<and> classify [''downloads'', ''photo.JPG''] = ''images''"
  using classify_ext_in_categories classify_ext_default classify_photo
  by (simp add: classify_def)

theorem classify_total_witness:
  "classify [''downloads'', ''font.TTF''] = ''other''
   \<and> classify [''downloads'', ''a.Png''] = classify [''downloads'', ''b.pNG'']
   \<and> classify [''downloads'', ''noext''] \<in> categories"
proof -
  have h1: "lstrip_chars ''.'' (lower (name_suffix (path_name [''downloads'', ''font.TTF''])))
              \<notin> set (images @ videos @ audio @ docs @ archives @ code @ apps)"
    by (simp add: path_name_def name_suffix_def rfind_def lower_def lower_char_def
        lstrip_chars_def images_def videos_def audio_def docs_def archives_def code_def apps_def)
  have h2: "lower (name_suffix (path_name [''downloads'', ''a.Png'']))
              = lower (name_suffix (path_name [''downloads'', ''b.pNG'']))"
    by (simp add: path_name_def name_suffix_def rfind_def lower_def lower_char_def)
  from classify_total [of "[''downloads'', ''font.TTF'']" "[]"] h1
  have "classify [''downloads'', ''font.TTF''] = ''other''" by blast
  moreover from classify_total [of "[''downloads'', ''a.Png'']" "[''downloads'', ''b.pNG'']"] h2
  have "classify [''downloads'', ''a.Png''] = classify [''downloads'', ''b.pNG'']" by blast
  moreover from classify_total [of "[''downloads'', ''noext'']" "[]"]
  have "classify [''downloads'', ''noext''] \<in> categories" by blast
  ultimately show ?thesis by blast
qed

section \<open>Dev Git Overview: status flags\<close>

record RepoStatus =
  project :: string
  branch :: string
  last_push :: string
  last_push_at :: "datetime option"
  dirty_count :: int

definition build_flags :: "RepoStatus \<Rightarrow> datetime \<Rightarrow> string" where
  "build_flags status now_utc =
     (case last_push_at status of
        None \<Rightarrow> ''-''
      | Some pushed \<Rightarrow>
          (let age = now_utc - pushed;
               flags = [];
               flags = (if age > timedelta_days 7 then flags @ [''stale>7d''] else flags);
               flags = (if age > timedelta_hours 24 \<and> dirty_count status > 0
                        then flags @ [''dirty+24h''] else flags)
           in if flags \<noteq> [] then join '', '' flags else ''-''))"

lemma build_flags_None: "last_push_at status = None \<Longrightarrow> build_flags status now_utc = ''-''"
  by (simp add: build_flags_def)

lemma build_flags_Some:
  "last_push_at status = Some pushed \<Longrightarrow>
   build_flags status now_utc =
     (if now_utc - pushed > timedelta_days 7
      then (if dirty_count status > 0 then ''stale>7d, dirty+24h'' else ''stale>7d'')
      else if now_utc - pushed > timedelta_hours 24 \<and> dirty_count status > 0
      then ''dirty+24h'' else ''-'')"
  by (simp add: build_flags_def Let_def join_def timedelta_days_def timedelta_hours_def)

text \<open>
  C7. The flag boundaries are strict. With a last push exactly 7 days old the result is
  \<open>dirty+24h\<close> or a dash, never \<open>stale>7d\<close>; with one exactly 24 hours old it is a dash,
  whatever the dirty count. \<open>dirty+24h\<close> needs a positive dirty count. Past 7 days with a
  dirty tree both flags appear, joined by a comma and a space. Without any flag the result
  is a single dash, and a null timestamp gives a dash whatever the other fields are.
\<close>

theorem build_flags_boundaries:
  "(last_push_at status = None \<longrightarrow> build_flags status now_utc = ''-'')
   \<and> (last_push_at status = Some pushed \<and> now_utc - pushed = timedelta_days 7 \<longrightarrow>
        build_flags status now_utc = (if dirty_count status > 0 then ''dirty+24h'' else ''-''))
   \<and> (last_push_at status = Some pushed \<and> now_utc - pushed = timedelta_hours 24 \<longrightarrow>
        build_flags status now_utc = ''-'')
   \<and> (last_push_at status = Some pushed \<and> now_utc - pushed > timedelta_days 7
        \<and> dirty_count status > 0 \<longrightarrow>
        build_flags status now_utc = ''stale>7d, dirty+24h'')
   \<and> (last_push_at status = Some pushed \<and> now_utc - pushed > timedelta_days 7
        \<and> dirty_count status \<le> 0 \<longrightarrow>
        build_flags status now_utc = ''stale>7d'')
   \<and> (last_push_at status = Some pushed \<and> now_utc - pushed \<le> timedelta_days 7
        \<and> now_utc - pushed > timedelta_hours 24 \<and> dirty_count status > 0 \<longrightarrow>
        build_flags status now_utc = ''dirty+24h'')
   \<and> (last_push_at status = Some pushed \<and> now_utc - pushed \<le> timedelta_days 7
        \<and> (now_utc - pushed \<le> timedelta_hours 24 \<or> dirty_count status \<le> 0) \<longrightarrow>
        build_flags status now_utc = ''-'')"
  using build_flags_None [of status now_utc] build_flags_Some [of status pushed now_utc]
  by (auto simp: timedelta_days_def timedelta_hours_def)

theorem build_flags_boundaries_witness:
  "build_flags \<lparr>project = ''alfred'', branch = ''main'', last_push = ''2024-05-01T10:00:00+00:00'',
                 last_push_at = Some 0, dirty_count = 3\<rparr> (timedelta_days 7) = ''dirty+24h''
   \<and> build_flags \<lparr>project = ''alfred'', branch = ''main'', last_push = ''2024-05-01T10:00:00+00:00'',
                 last_push_at = Some 0, dirty_count = 3\<rparr> (timedelta_hours 24) = ''-''
   \<and> build_flags \<lparr>project = ''alfred'', branch = ''main'', last_push = ''2024-05-01T10:00:00+00:00'',
                 last_push_at = Some 0, dirty_count = 3\<rparr> (timedelta_days 7 + 1)
       = ''stale>7d, dirty+24h''
   \<and> build_flags \<lparr>project = ''alfred'', branch = ''main'', last_push = ''no upstream'',
                 last_push_at = None, dirty_count = 3\<rparr> (timedelta_days 30) = ''-''"
proof -
  let ?s = "\<lparr>project = ''alfred'', branch = ''main'', last_push = ''2024-05-01T10:00:00+00:00'',
             last_push_at = Some (0::int), dirty_count = 3\<rparr>"
  let ?n = "\<lparr>project = ''alfred'', branch = ''main'', last_push = ''no upstream'',
             last_push_at = None, dirty_count = 3\<rparr>"
  have "build_flags ?s (timedelta_days 7) = ''dirty+24h''"
    using build_flags_boundaries [of ?s "timedelta_days 7" 0] by simp
  moreover have "build_flags ?s (timedelta_hours 24) = ''-''"
    using build_flags_boundaries [of ?s "timedelta_hours 24" 0] by simp
  moreover have "build_flags ?s (timedelta_days 7 + 1) = ''stale>7d, dirty+24h''"
    using build_flags_boundaries [of ?s "timedelta_days 7 + 1" 0] by simp
  moreover have "build_flags ?n (timedelta_days 30) = ''-''"
    using build_flags_boundaries [of ?n "timedelta_days 30" 0] by simp
  ultimately show ?thesis by blast
qed

section \<open>The file system\<close>

text \<open>
  The state of the file system is a finite table from paths to nodes, in the order in
  which a directory lists its entries. A node is a directory, a regular file (both with
  their \<^verbatim>\<open>st_mtime\<close>, in seconds), or an entry whose \<^verbatim>\<open>stat()\<close> raises the given
  error: a dangling symbolic link raises \<^verbatim>\<open>FileNotFoundError\<close>, a link into a directory
  that may not be searched raises \<^verbatim>\<open>PermissionError\<close>. A directory keeps the mtime it was
  created with; nothing in the daemon reads it.

  \<^verbatim>\<open>Path.exists()\<close> and \<^verbatim>\<open>Path.is_dir()\<close> follow links and answer \<open>False\<close> when the
  \<^verbatim>\<open>stat\<close> fails, as \<^verbatim>\<open>os.path.exists\<close> and \<^verbatim>\<open>os.path.isdir\<close> do.
\<close>

datatype node = Dir real | File real | Unstatable py_error

type_synonym filesystem = "(path \<times> node) list"

definition path_parent :: "path \<Rightarrow> path" where
  "path_parent p = (if p = [] \<or> p = [''/''] then p else butlast p)"

definition path_exists :: "filesystem \<Rightarrow> path \<Rightarrow> bool" where
  "path_exists fs p =
     (case map_of fs p of Some (Dir _) \<Rightarrow> True | Some (File _) \<Rightarrow> True | _ \<Rightarrow> False)"

definition is_dir :: "filesystem \<Rightarrow> path \<Rightarrow> bool" where
  "is_dir fs p = (case map_of fs p of Some (Dir _) \<Rightarrow> True | _ \<Rightarrow> False)"

text \<open>
  The error of a system call on a path that has no node: \<^verbatim>\<open>ENOTDIR\<close> when the nearest
  ancestor that exists is a regular file, \<^verbatim>\<open>ENOENT\<close> otherwise.
\<close>

function lookup_error :: "filesystem \<Rightarrow> path \<Rightarrow> py_error" where
  "lookup_error fs p =
     (if path_parent p = p then FileNotFoundError
      else case map_of fs (path_parent p) of
             Some (File _) \<Rightarrow> NotADirectoryError
           | Some (Unstatable e) \<Rightarrow> e
           | Some (Dir _) \<Rightarrow> FileNotFoundError
           | None \<Rightarrow> lookup_error fs (path_parent p))"
  by pat_completeness auto
termination
  by (relation "measure (\<lambda>(fs, p). length p)") (auto simp: path_parent_def split: if_splits)

declare lookup_error.simps [simp del]

definition stat_mtime :: "filesystem \<Rightarrow> path \<Rightarrow> py_error + real" where
  "stat_mtime fs p =
     (case map_of fs p of
        None \<Rightarrow> Inl (lookup_error fs p)
      | Some (Dir m) \<Rightarrow> Inr m
      | Some (File m) \<Rightarrow> Inr m
      | Some (Unstatable e) \<Rightarrow> Inl e)"

text \<open>\<^verbatim>\<open>Path.iterdir()\<close>: the children of a directory, listed once, in table order.\<close>

definition iterdir :: "filesystem \<Rightarrow> path \<Rightarrow> py_error + path list" where
  "iterdir fs d =
     (case map_of fs d of
        None \<Rightarrow> Inl (lookup_error fs d)
      | Some (File _) \<Rightarrow> Inl NotADirectoryError
      | Some (Unstatable e) \<Rightarrow> Inl e
      | Some (Dir _) \<Rightarrow>
          Inr (filter (\<lambda>p. p \<noteq> d \<and> path_parent p = d) (remdups (map fst fs))))"

text \<open>
  \<^verbatim>\<open>os.mkdir\<close> creates one directory and changes nothing when it fails.
  \<^verbatim>\<open>Path.mkdir(parents, exist_ok)\<close> is pathlib's: on \<^verbatim>\<open>FileNotFoundError\<close> it creates
  the parent chain and tries once more; on another \<^verbatim>\<open>OSError\<close> it is satisfied when
  \<open>exist_ok\<close> is set and the path is a directory. It returns the error raised, if any,
  with the state reached, since parents made before a failure stay.
\<close>

definition os_mkdir :: "filesystem \<Rightarrow> real \<Rightarrow> path \<Rightarrow> py_error + filesystem" where
  "os_mkdir fs now p =
     (case map_of fs p of
        Some _ \<Rightarrow> Inl FileExistsError
      | None \<Rightarrow>
          if path_parent p \<noteq> p \<and> is_dir fs (path_parent p) then Inr (fs @ [(p, Dir now)])
          else Inl (lookup_error fs p))"

function mkdir :: "filesystem \<Rightarrow> real \<Rightarrow> path \<Rightarrow> bool \<Rightarrow> bool \<Rightarrow> py_error option \<times> filesystem" where
  "mkdir fs now p parents exist_ok =
     (case os_mkdir fs now p of
        Inr fs' \<Rightarrow> (None, fs')
      | Inl e \<Rightarrow>
          if e = FileNotFoundError then
            (if \<not> parents \<or> path_parent p = p then (Some e, fs)
             else case mkdir fs now (path_parent p) True True of
                    (Some e', fs') \<Rightarrow> (Some e', fs')
                  | (None, fs') \<Rightarrow> mkdir fs' now p False exist_ok)
          else if \<not> exist_ok \<or> \<not> is_dir fs p then (Some e, fs)
          else (None, fs))"
  by pat_completeness auto
termination
  by (relation "measure (\<lambda>(fs, now, p, parents, exist_ok). 2 * length p + (if parents then 1 else 0))")
     (auto simp: path_parent_def split: if_splits)

declare mkdir.simps [simp del]

definition ensure_dir :: "filesystem \<Rightarrow> real \<Rightarrow> path \<Rightarrow> py_error option \<times> filesystem" where
  "ensure_dir fs now p = mkdir fs now p True True"

text \<open>
  \<^verbatim>\<open>os.replace\<close> is \<^verbatim>\<open>rename(2)\<close>: the source is looked up without following links,
  the destination's directory must exist, a file or link at the destination is replaced,
  a directory moves with everything below it. It is atomic: on an error nothing changes.
\<close>

definition rename_tree :: "filesystem \<Rightarrow> path \<Rightarrow> path \<Rightarrow> filesystem" where
  "rename_tree fs src dest =
     map (\<lambda>(q, k). if prefix src q then (dest @ drop (length src) q, k) else (q, k))
       (filter (\<lambda>(q, k). q \<noteq> dest) fs)"

definition os_replace :: "filesystem \<Rightarrow> path \<Rightarrow> path \<Rightarrow> py_error + filesystem" where
  "os_replace fs src dest =
     (case map_of fs src of
        None \<Rightarrow> Inl (lookup_error fs src)
      | Some n \<Rightarrow>
          if \<not> (path_parent dest \<noteq> dest \<and> is_dir fs (path_parent dest))
          then Inl (lookup_error fs dest)
          else if src = dest then Inr fs
          else (case n of
                  Dir m \<Rightarrow>
                    (if prefix src dest then Inl OSError
                     else case map_of fs dest of
                            None \<Rightarrow> Inr (rename_tree fs src dest)
                          | Some (Dir _) \<Rightarrow>
                              if \<exists>q \<in> set (map fst fs). q \<noteq> dest \<and> path_parent q = dest
                              then Inl OSError
                              else Inr (rename_tree fs src dest)
                          | Some _ \<Rightarrow> Inl NotADirectoryError)
                | _ \<Rightarrow>
                    (case map_of fs dest of
                       Some (Dir _) \<Rightarrow> Inl IsADirectoryError
                     | _ \<Rightarrow> Inr (filter (\<lambda>(q, k). q \<noteq> src \<and> q \<noteq> dest) fs @ [(dest, n)]))))"

definition atomic_move :: "filesystem \<Rightarrow> real \<Rightarrow> path \<Rightarrow> path \<Rightarrow> py_error option \<times> filesystem" where
  "atomic_move fs now src dest =
     (case ensure_dir fs now (path_parent dest) of
        (Some e, fs') \<Rightarrow> (Some e, fs')
      | (None, fs') \<Rightarrow>
          (case os_replace fs' src dest of
             Inl e \<Rightarrow> (Some e, fs')
           | Inr fs'' \<Rightarrow> (None, fs'')))"

subsection \<open>Unique path resolution\<close>

text \<open>\<^verbatim>\<open>str(i)\<close> for a non-negative integer, and the name \<^verbatim>\<open>f"{stem} ({i}){suffix}"\<close>.\<close>

definition digit_char :: "nat \<Rightarrow> char" where
  "digit_char d = ''0123456789'' ! d"

fun str_nat :: "nat \<Rightarrow> string" where
  "str_nat n = (if n < 10 then [digit_char n] else str_nat (n div 10) @ [digit_char (n mod 10)])"

declare str_nat.simps [simp del]

definition alt_name :: "string \<Rightarrow> string \<Rightarrow> nat \<Rightarrow> string" where
  "alt_name stem sfx i = stem @ '' ('' @ str_nat i @ '')'' @ sfx"

text \<open>Reading a decimal numeral back: the rendering of distinct numbers is distinct.\<close>

definition digit_val :: "char \<Rightarrow> nat" where
  "digit_val c = length (takeWhile (\<lambda>d. d \<noteq> c) ''0123456789'')"

definition nat_of_str :: "string \<Rightarrow> nat" where
  "nat_of_str s = foldl (\<lambda>a c. 10 * a + digit_val c) 0 s"

lemma digit_val_digit_char: "d < 10 \<Longrightarrow> digit_val (digit_char d) = d"
proof -
  assume "d < 10"
  then have "d \<in> {0, 1, 2, 3, 4, 5, 6, 7, 8, 9}" by auto
  then show ?thesis
    by (auto simp: digit_val_def digit_char_def)
qed

lemma nat_of_str_str_nat: "nat_of_str (str_nat n) = n"
proof (induction n rule: str_nat.induct)
  case (1 n)
  show ?case
  proof (cases "n < 10")
    case True
    then show ?thesis by (simp add: str_nat.simps nat_of_str_def digit_val_digit_char)
  next
    case False
    with 1 have "nat_of_str (str_nat (n div 10)) = n div 10" by simp
    then have "nat_of_str (str_nat (n div 10) @ [digit_char (n mod 10)]) = 10 * (n div 10) + n mod 10"
      by (simp add: nat_of_str_def digit_val_digit_char)
    with False show ?thesis by (subst str_nat.simps) simp
  qed
qed

lemma str_nat_inj: "str_nat i = str_nat j \<Longrightarrow> i = j"
  by (metis nat_of_str_str_nat)

lemma alt_name_inj: "alt_name stem sfx i = alt_name stem sfx j \<Longrightarrow> i = j"
  by (simp add: alt_name_def str_nat_inj)

lemma path_exists_dom: "path_exists fs p \<Longrightarrow> p \<in> fst ` set fs"
  by (auto simp: path_exists_def split: option.splits node.splits dest: map_of_SomeD intro: rev_image_eqI)

lemma finite_collisions: "finite {j. path_exists fs (d @ [alt_name stem sfx j])}"
proof -
  let ?f = "\<lambda>j. d @ [alt_name stem sfx j]"
  have "inj ?f" by (auto simp: inj_on_def dest: alt_name_inj)
  moreover have "finite (fst ` set fs)" by simp
  ultimately have "finite (?f -` (fst ` set fs))" by (rule finite_vimageI[rotated])
  moreover have "{j. path_exists fs (?f j)} \<subseteq> ?f -` (fst ` set fs)"
    using path_exists_dom by auto
  ultimately show ?thesis by (rule rev_finite_subset)
qed

text \<open>
  The probing loop \<^verbatim>\<open>while True: ... i += 1\<close>. It ends because the table is finite and
  the probed names are pairwise distinct: the number of taken names from \<open>i\<close> on decreases.
\<close>

function probe :: "filesystem \<Rightarrow> path \<Rightarrow> string \<Rightarrow> string \<Rightarrow> nat \<Rightarrow> path" where
  "probe fs dest_dir stem sfx i =
     (let alt = dest_dir @ [alt_name stem sfx i]
      in if \<not> path_exists fs alt then alt else probe fs dest_dir stem sfx (i + 1))"
  by pat_completeness auto
termination
proof (relation "measure (\<lambda>(fs, d, stem, sfx, i).
                   card {j. i \<le> j \<and> path_exists fs (d @ [alt_name stem sfx j])})")
  show "wf (measure (\<lambda>(fs, d, stem, sfx, i).
                   card {j. i \<le> j \<and> path_exists fs (d @ [alt_name stem sfx j])}))"
    by simp
next
  fix fs :: filesystem and dest_dir :: path and stem sfx :: string and i :: nat and alt :: path
  assume alt: "alt = dest_dir @ [alt_name stem sfx i]" and ex: "\<not> \<not> path_exists fs alt"
  let ?A = "\<lambda>k. {j. k \<le> j \<and> path_exists fs (dest_dir @ [alt_name stem sfx j])}"
  have fin: "finite (?A i)"
    by (rule finite_subset [OF _ finite_collisions [of fs dest_dir stem sfx]]) auto
  have "i \<in> ?A i" "i \<notin> ?A (i + 1)" using alt ex by auto
  moreover have "?A (i + 1) \<subseteq> ?A i" by auto
  ultimately have "?A (i + 1) \<subset> ?A i" by blast
  with fin have "card (?A (i + 1)) < card (?A i)" by (rule psubset_card_mono)
  then show "((fs, dest_dir, stem, sfx, i + 1), (fs, dest_dir, stem, sfx, i))
        \<in> measure (\<lambda>(fs, d, stem, sfx, i).
                   card {j. i \<le> j \<and> path_exists fs (d @ [alt_name stem sfx j])})"
    by simp
qed

declare probe.simps [simp del]

text \<open>
  \<open>filename\<close> is the name of a directory entry, a single component, so that
  \<^verbatim>\<open>dest_dir / filename\<close> appends it and \<^verbatim>\<open>Path(filename)\<close> has it as its name.
\<close>

definition unique_target_path :: "filesystem \<Rightarrow> path \<Rightarrow> string \<Rightarrow> path" where
  "unique_target_path fs dest_dir filename =
     (let candidate = dest_dir @ [filename]
      in if \<not> path_exists fs candidate then candidate
         else probe fs dest_dir (name_stem filename) (name_suffix filename) 2)"

lemma probe_spec:
  "\<exists>k\<ge>i. probe fs d stem sfx i = d @ [alt_name stem sfx k]
        \<and> \<not> path_exists fs (d @ [alt_name stem sfx k])
        \<and> (\<forall>j. i \<le> j \<and> j < k \<longrightarrow> path_exists fs (d @ [alt_name stem sfx j]))"
proof (induction fs d stem sfx i rule: probe.induct)
  case (1 fs d stem sfx i)
  show ?case
  proof (cases "path_exists fs (d @ [alt_name stem sfx i])")
    case False
    then have "probe fs d stem sfx i = d @ [alt_name stem sfx i]"
      by (subst probe.simps) simp
    with False show ?thesis by (intro exI [of _ i]) auto
  next
    case True
    with 1 obtain k where k: "i + 1 \<le> k"
        "probe fs d stem sfx (i + 1) = d @ [alt_name stem sfx k]"
        "\<not> path_exists fs (d @ [alt_name stem sfx k])"
        "\<forall>j. i + 1 \<le> j \<and> j < k \<longrightarrow> path_exists fs (d @ [alt_name stem sfx j])"
      by auto
    from True have "probe fs d stem sfx i = probe fs d stem sfx (i + 1)"
      by (subst probe.simps) simp
    moreover have "\<forall>j. i \<le> j \<and> j < k \<longrightarrow> path_exists fs (d @ [alt_name stem sfx j])"
    proof (intro allI impI)
      fix j assume "i \<le> j \<and> j < k"
      then show "path_exists fs (d @ [alt_name stem sfx j])"
        using True k(4) by (cases "j = i") auto
    qed
    ultimately show ?thesis using k by (intro exI [of _ k]) auto
  qed
qed

lemma unique_target_path_not_exists: "\<not> path_exists fs (unique_target_path fs d f)"
  using probe_spec [of 2 fs d "name_stem f" "name_suffix f"]
  by (auto simp: unique_target_path_def Let_def)



lemmas unique_target_path_eval =
  unique_target_path_def path_exists_def name_stem_def name_suffix_def rfind_def alt_name_def
  digit_char_def probe.simps str_nat.simps


subsection \<open>What the mutating calls leave alone\<close>

text \<open>
  \<^verbatim>\<open>mkdir\<close> keeps every node there is and adds directories only at the path and its
  ancestors. A move of a regular file changes the table at the source and at the
  destination, and where \<^verbatim>\<open>ensure_dir\<close> made directories.
\<close>

lemma map_of_snoc_Some: "map_of fs q = Some n \<Longrightarrow> map_of (fs @ [x]) q = Some n"
  by (simp add: map_add_def)









section \<open>Downloads Janitor: one scan cycle\<close>

text \<open>
  \<open>folders\<close> is the category-to-folder dictionary, in insertion order; a folder is the
  name of one directory under the root. \<^verbatim>\<open>fnmatch.fnmatch\<close> and the clock reading
  \<^verbatim>\<open>time.time()\<close>, the same for the whole cycle, are parameters of the scan.
\<close>

record JanitorSettings =
  root_dir :: path
  scan_interval_seconds :: int
  min_file_age_seconds :: int
  dry_run :: bool
  ignore :: "string list"
  protected_folders :: "string list"
  folders :: "(string \<times> string) list"
  obsidian :: "(string \<times> string) list"

definition dict_getitem :: "(string \<times> 'v) list \<Rightarrow> string \<Rightarrow> py_error + 'v" where
  "dict_getitem d k = (case map_of d k of None \<Rightarrow> Inl (KeyError k) | Some v \<Rightarrow> Inr v)"

definition dict_get :: "(string \<times> 'v) list \<Rightarrow> string \<Rightarrow> 'v \<Rightarrow> 'v" where
  "dict_get d k dflt = (case map_of d k of None \<Rightarrow> dflt | Some v \<Rightarrow> v)"

definition matches_any :: "(string \<Rightarrow> string \<Rightarrow> bool) \<Rightarrow> string \<Rightarrow> string list \<Rightarrow> bool" where
  "matches_any fnmatch name patterns = list_ex (\<lambda>p. fnmatch name p) patterns"

definition is_recent :: "filesystem \<Rightarrow> real \<Rightarrow> path \<Rightarrow> int \<Rightarrow> py_error + bool" where
  "is_recent fs now p min_age_seconds =
     (case stat_mtime fs p of
        Inl e \<Rightarrow> if e = FileNotFoundError then Inr True else Inl e
      | Inr mtime \<Rightarrow> Inr (now - mtime < of_int min_age_seconds))"

definition is_in_top_folder :: "path \<Rightarrow> path \<Rightarrow> string list \<Rightarrow> bool" where
  "is_in_top_folder p rootp top_folders =
     (if \<not> prefix rootp p then True
      else let rel = drop (length rootp) p
           in if rel = [] then True else hd rel \<in> set top_folders)"

datatype log_event =
    Log_bootstrap_complete
  | Log_dry_run_move path path
  | Log_moved path path
  | Log_failed path path py_error
  | Log_scan_done int int

record scan_state =
  moved_count :: int
  skipped :: int
  moves :: "(path \<times> path) list"
  files :: filesystem
  logged :: "log_event list"

text \<open>
  The body of the loop over the entries. An exception that leaves the body ends the
  cycle: the result is then \<open>Inl\<close> of the error and the state reached.
  In \<^verbatim>\<open>cfg.folders.get(key, cfg.folders["other"])\<close> the default is an argument, looked
  up before \<^verbatim>\<open>get\<close> is called.
\<close>

definition scan_entry ::
  "(string \<Rightarrow> string \<Rightarrow> bool) \<Rightarrow> real \<Rightarrow> JanitorSettings \<Rightarrow> path \<Rightarrow> scan_state
     \<Rightarrow> (py_error \<times> scan_state) + scan_state" where
  "scan_entry fnmatch now cfg entry st =
     (if is_dir (files st) entry then Inr st
      else
        let name = path_name entry in
        if matches_any fnmatch name (ignore cfg) then Inr (st\<lparr>skipped := skipped st + 1\<rparr>)
        else
          case is_recent (files st) now entry (min_file_age_seconds cfg) of
            Inl e \<Rightarrow> Inl (e, st)
          | Inr recent \<Rightarrow>
              if recent then Inr (st\<lparr>skipped := skipped st + 1\<rparr>)
              else if is_in_top_folder entry (root_dir cfg) (protected_folders cfg)
              then Inr (st\<lparr>skipped := skipped st + 1\<rparr>)
              else
                let key = classify entry in
                case dict_getitem (folders cfg) ''other'' of
                  Inl e \<Rightarrow> Inl (e, st)
                | Inr other \<Rightarrow>
                    let dest_dir = root_dir cfg @ [dict_get (folders cfg) key other];
                        dest = unique_target_path (files st) dest_dir name
                    in
                    if dry_run cfg then
                      Inr (st\<lparr>logged := logged st @ [Log_dry_run_move entry dest],
                              moved_count := moved_count st + 1,
                              moves := moves st @ [(entry, dest)]\<rparr>)
                    else
                      case atomic_move (files st) now entry dest of
                        (None, fs') \<Rightarrow>
                          Inr (st\<lparr>files := fs',
                                  logged := logged st @ [Log_moved entry dest],
                                  moved_count := moved_count st + 1,
                                  moves := moves st @ [(entry, dest)]\<rparr>)
                      | (Some e, fs') \<Rightarrow>
                          Inr (st\<lparr>files := fs',
                                  logged := logged st @ [Log_failed entry dest e]\<rparr>))"

fun scan_entries ::
  "(string \<Rightarrow> string \<Rightarrow> bool) \<Rightarrow> real \<Rightarrow> JanitorSettings \<Rightarrow> path list \<Rightarrow> scan_state
     \<Rightarrow> (py_error \<times> scan_state) + scan_state" where
  "scan_entries fnmatch now cfg [] st = Inr st"
| "scan_entries fnmatch now cfg (entry # rest) st =
     (case scan_entry fnmatch now cfg entry st of
        Inl err \<Rightarrow> Inl err
      | Inr st' \<Rightarrow> scan_entries fnmatch now cfg rest st')"

definition initial_state :: "filesystem \<Rightarrow> scan_state" where
  "initial_state fs = \<lparr>moved_count = 0, skipped = 0, moves = [], files = fs, logged = []\<rparr>"

text \<open>
  \<^verbatim>\<open>_scan_once\<close> up to its summary line. The note written afterwards by
  \<^verbatim>\<open>_maybe_write_obsidian\<close> goes to the note sink, which is not part of this state, and
  raises nothing.
\<close>

definition scan_once ::
  "(string \<Rightarrow> string \<Rightarrow> bool) \<Rightarrow> real \<Rightarrow> JanitorSettings \<Rightarrow> filesystem
     \<Rightarrow> (py_error \<times> scan_state) + scan_state" where
  "scan_once fnmatch now cfg fs =
     (case iterdir fs (root_dir cfg) of
        Inl e \<Rightarrow> Inl (e, initial_state fs)
      | Inr entries \<Rightarrow>
          (case scan_entries fnmatch now cfg entries (initial_state fs) of
             Inl err \<Rightarrow> Inl err
           | Inr st \<Rightarrow>
               Inr (st\<lparr>logged := logged st @ [Log_scan_done (moved_count st) (skipped st)]\<rparr>)))"

text \<open>The report of a cycle: the two counts and the move records.\<close>

definition report :: "scan_state \<Rightarrow> int \<times> int \<times> (path \<times> path) list" where
  "report st = (moved_count st, skipped st, moves st)"

text \<open>
  \<^verbatim>\<open>_load_settings\<close> on an empty configuration: every field takes its default. The
  protected folders are the folder names, each once.
\<close>

definition default_folders :: "(string \<times> string) list" where
  "default_folders =
     [(''images'', ''Images''), (''videos'', ''Videos''), (''audio'', ''Audio''),
      (''docs'', ''Docs''), (''archives'', ''Archives''), (''code'', ''Code''),
      (''apps'', ''Apps''), (''other'', ''Other'')]"

definition default_settings :: JanitorSettings where
  "default_settings =
     \<lparr>root_dir = [''/'', ''downloads''],
      scan_interval_seconds = 120,
      min_file_age_seconds = 60,
      dry_run = False,
      ignore = [''.DS_Store'', ''.*'', ''*.crdownload'', ''*.part'', ''*.download''],
      protected_folders = remdups (map snd default_folders),
      folders = default_folders,
      obsidian = []\<rparr>"

text \<open>
  A matcher for patterns made of literal characters, \<open>*\<close> and \<open>?\<close>, which is what
  \<^verbatim>\<open>fnmatch\<close> computes on patterns without a bracket; used to run the scan on examples.
\<close>

fun glob_match :: "string \<Rightarrow> string \<Rightarrow> bool" where
  "glob_match [] [] = True"
| "glob_match (c # cs) [] = False"
| "glob_match [] (p # ps) = (p = CHR ''*'' \<and> glob_match [] ps)"
| "glob_match (c # cs) (p # ps) =
     (if p = CHR ''*'' then glob_match (c # cs) ps \<or> glob_match cs (p # ps)
      else (p = CHR ''?'' \<or> p = c) \<and> glob_match cs ps)"

definition fnmatch_plain :: "string \<Rightarrow> string \<Rightarrow> bool" where
  "fnmatch_plain name pat = glob_match name pat"

text \<open>The state a cycle ended in, and the exception it ended with, if any.\<close>

definition outcome_state :: "(py_error \<times> scan_state) + scan_state \<Rightarrow> scan_state" where
  "outcome_state r = (case r of Inl (e, st) \<Rightarrow> st | Inr st \<Rightarrow> st)"

definition raised :: "(py_error \<times> scan_state) + scan_state \<Rightarrow> py_error option" where
  "raised r = (case r of Inl (e, st) \<Rightarrow> Some e | Inr st \<Rightarrow> None)"

definition move_failed :: "log_event \<Rightarrow> bool" where
  "move_failed ev = (case ev of Log_failed src dest e \<Rightarrow> True | _ \<Rightarrow> False)"




text \<open>
  \<^verbatim>\<open>_bootstrap\<close> makes the root and one directory per configured folder, in dictionary
  order, whatever \<open>dry_run\<close> is; the first error ends it.
\<close>

fun ensure_dirs :: "filesystem \<Rightarrow> real \<Rightarrow> path list \<Rightarrow> py_error option \<times> filesystem" where
  "ensure_dirs fs now [] = (None, fs)"
| "ensure_dirs fs now (p # ps) =
     (case ensure_dir fs now p of
        (Some e, fs') \<Rightarrow> (Some e, fs')
      | (None, fs') \<Rightarrow> ensure_dirs fs' now ps)"

definition bootstrap :: "filesystem \<Rightarrow> real \<Rightarrow> JanitorSettings \<Rightarrow> py_error option \<times> filesystem" where
  "bootstrap fs now cfg =
     ensure_dirs fs now (root_dir cfg # map (\<lambda>(category, folder). root_dir cfg @ [folder]) (folders cfg))"

text \<open>
  \<^verbatim>\<open>run_forever\<close>: bootstrap, then scan and sleep without end. \<open>clock k\<close> is the time of
  cycle \<open>k\<close>, and \<open>world k\<close> is what everything else does to the file system while the
  feature sleeps after cycle \<open>k\<close>. The loop has no exit: it returns nothing (\<open>None\<close>)
  unless a cycle raises, and then the result is the exception, with the table it left.
\<close>

partial_function (option) janitor_cycles ::
  "(string \<Rightarrow> string \<Rightarrow> bool) \<Rightarrow> (nat \<Rightarrow> real) \<Rightarrow> (nat \<Rightarrow> filesystem \<Rightarrow> filesystem)
     \<Rightarrow> JanitorSettings \<Rightarrow> nat \<Rightarrow> filesystem \<Rightarrow> (py_error \<times> filesystem) option" where
  "janitor_cycles fnmatch clock world cfg k fs =
     (case scan_once fnmatch (clock k) cfg fs of
        Inl (e, st) \<Rightarrow> Some (e, files st)
      | Inr st \<Rightarrow> janitor_cycles fnmatch clock world cfg (Suc k) (world k (files st)))"

definition run_forever ::
  "(string \<Rightarrow> string \<Rightarrow> bool) \<Rightarrow> (nat \<Rightarrow> real) \<Rightarrow> (nat \<Rightarrow> filesystem \<Rightarrow> filesystem)
     \<Rightarrow> JanitorSettings \<Rightarrow> filesystem \<Rightarrow> (py_error \<times> filesystem) option" where
  "run_forever fnmatch clock world cfg fs =
     (case bootstrap fs (clock 0) cfg of
        (Some e, fs') \<Rightarrow> Some (e, fs')
      | (None, fs') \<Rightarrow> janitor_cycles fnmatch clock world cfg 0 fs')"

subsection \<open>Dry run and live run, entry by entry\<close>















subsection \<open>Dry run against live run\<close>

lemmas fs_eval =
  path_exists_def is_dir_def stat_mtime_def iterdir_def path_parent_def os_mkdir_def mkdir.simps
  ensure_dir_def os_replace_def atomic_move_def lookup_error.simps

lemmas scan_eval =
  scan_once_def scan_entry_def initial_state_def matches_any_def is_recent_def
  is_in_top_folder_def dict_getitem_def dict_get_def default_settings_def default_folders_def
  fnmatch_plain_def classify_def classify_ext_def path_name_def lower_def lower_char_def
  lstrip_chars_def images_def videos_def audio_def docs_def archives_def code_def apps_def
  report_def outcome_state_def raised_def move_failed_def Let_def













subsection \<open>What the counts count\<close>










subsection \<open>Entries whose metadata cannot be read\<close>

text \<open>
  A dangling link and a link whose target may not be examined, each beside a document.
\<close>

definition dangling_link :: filesystem where
  "dangling_link =
     [([''/''], Dir 0),
      ([''/'', ''downloads''], Dir 0),
      ([''/'', ''downloads'', ''gone.txt''], Unstatable FileNotFoundError),
      ([''/'', ''downloads'', ''a.pdf''], File 20)]"

definition denied_link :: filesystem where
  "denied_link =
     [([''/''], Dir 0),
      ([''/'', ''downloads''], Dir 0),
      ([''/'', ''downloads'', ''locked.txt''], Unstatable PermissionError),
      ([''/'', ''downloads'', ''a.pdf''], File 20)]"

text \<open>
  C3, as stated, fails: \<^verbatim>\<open>is_recent\<close> catches \<^verbatim>\<open>FileNotFoundError\<close> only. When the
  \<^verbatim>\<open>stat\<close> raises \<^verbatim>\<open>PermissionError\<close>, the error leaves \<^verbatim>\<open>is_recent\<close> and the
  cycle, before \<open>a.pdf\<close> is looked at.
\<close>

theorem stat_failure_counterexample:
  "is_recent denied_link 1000 [''/'', ''downloads'', ''locked.txt''] 60 = Inl PermissionError
   \<and> scan_once fnmatch_plain 1000 default_settings denied_link
       = Inl (PermissionError, initial_state denied_link)"
  by (simp add: denied_link_def scan_eval fs_eval)

text \<open>
  C3, amended. For an entry that is not a directory and not ignored, whose \<^verbatim>\<open>stat\<close>
  raises \<^verbatim>\<open>FileNotFoundError\<close>, the age check answers "recent": the entry is skipped and
  the cycle goes on with the next entry. Any other error of the \<^verbatim>\<open>stat\<close> leaves the
  age check and ends the cycle.
\<close>

theorem stat_failure_handling:
  assumes "\<not> is_dir (files st) e"
    and "\<not> matches_any fnmatch (path_name e) (ignore cfg)"
    and "stat_mtime (files st) e = Inl err"
  shows "is_recent (files st) now e (min_file_age_seconds cfg)
           = (if err = FileNotFoundError then Inr True else Inl err)
       \<and> scan_entries fnmatch now cfg (e # rest) st
           = (if err = FileNotFoundError
              then scan_entries fnmatch now cfg rest (st\<lparr>skipped := skipped st + 1\<rparr>)
              else Inl (err, st))"
  using assms by (simp add: is_recent_def scan_entry_def)

theorem stat_failure_handling_witness:
  "scan_entries fnmatch_plain 1000 default_settings
     [[''/'', ''downloads'', ''gone.txt''], [''/'', ''downloads'', ''a.pdf'']]
     (initial_state dangling_link)
   = scan_entries fnmatch_plain 1000 default_settings [[''/'', ''downloads'', ''a.pdf'']]
       ((initial_state dangling_link)\<lparr>skipped := 1\<rparr>)
   \<and> report (outcome_state (scan_once fnmatch_plain 1000 default_settings dangling_link))
       = (1, 1, [([''/'', ''downloads'', ''a.pdf''], [''/'', ''downloads'', ''Docs'', ''a.pdf''])])"
proof -
  let ?st = "initial_state dangling_link" and ?e = "[''/'', ''downloads'', ''gone.txt'']"
  have h: "\<not> is_dir (files ?st) ?e"
    "\<not> matches_any fnmatch_plain (path_name ?e) (ignore default_settings)"
    "stat_mtime (files ?st) ?e = Inl FileNotFoundError"
    by (simp_all add: dangling_link_def scan_eval fs_eval)
  from stat_failure_handling [OF h, of 1000 "[[''/'', ''downloads'', ''a.pdf'']]"]
  have "scan_entries fnmatch_plain 1000 default_settings [?e, [''/'', ''downloads'', ''a.pdf'']] ?st
        = scan_entries fnmatch_plain 1000 default_settings [[''/'', ''downloads'', ''a.pdf'']]
            (?st\<lparr>skipped := 1\<rparr>)"
    by (simp add: initial_state_def)
  moreover have "report (outcome_state (scan_once fnmatch_plain 1000 default_settings dangling_link))
       = (1, 1, [([''/'', ''downloads'', ''a.pdf''], [''/'', ''downloads'', ''Docs'', ''a.pdf''])])"
    by (simp add: dangling_link_def scan_eval fs_eval unique_target_path_eval)
  ultimately show ?thesis by simp
qed

subsection \<open>The folder of last resort\<close>

lemma janitor_cycles_raise:
  "scan_once fnmatch (clock k) cfg fs = Inl (err, st) \<Longrightarrow>
   janitor_cycles fnmatch clock world cfg k fs = Some (err, files st)"
  by (subst janitor_cycles.simps) simp

text \<open>The default folders without their last entry, and one old file of no known kind.\<close>

definition no_other_settings :: JanitorSettings where
  "no_other_settings = default_settings\<lparr>folders := butlast default_folders\<rparr>"

definition one_font :: filesystem where
  "one_font =
     [([''/''], Dir 0),
      ([''/'', ''downloads''], Dir 0),
      ([''/'', ''downloads'', ''title.ttf''], File 20),
      ([''/'', ''downloads'', ''a.pdf''], File 20)]"

text \<open>
  C10. The scan needs the key \<open>other\<close> in the folder dictionary. Without it, the first
  entry that passes the directory, ignore, age and protected-name checks raises
  \<open>KeyError\<close> (whether or not its own category has a folder, the default being looked up
  first); the entries after it are not processed, the cycle ends with the exception, and so
  does the feature's endless loop. With the key present no entry raises \<open>KeyError\<close>, and
  the default settings have the key.
\<close>

theorem missing_other_aborts:
  assumes "\<not> is_dir (files st) e"
    and "\<not> matches_any fnmatch (path_name e) (ignore cfg)"
    and "is_recent (files st) now e (min_file_age_seconds cfg) = Inr False"
    and "\<not> is_in_top_folder e (root_dir cfg) (protected_folders cfg)"
  shows "(map_of (folders cfg) ''other'' = None \<longrightarrow>
            scan_entries fnmatch now cfg (e # rest) st = Inl (KeyError ''other'', st))
       \<and> (map_of (folders cfg) ''other'' \<noteq> None \<longrightarrow>
            (\<forall>k st'. scan_entry fnmatch now cfg e st \<noteq> Inl (KeyError k, st')))
       \<and> (\<forall>err st' clock world k fs.
            scan_once fnmatch (clock k) cfg fs = Inl (err, st') \<longrightarrow>
            janitor_cycles fnmatch clock world cfg k fs = Some (err, files st'))
       \<and> map_of (folders default_settings) ''other'' = Some ''Other''"
proof (intro conjI impI allI)
  assume "map_of (folders cfg) ''other'' = None"
  with assms show "scan_entries fnmatch now cfg (e # rest) st = Inl (KeyError ''other'', st)"
    by (simp add: scan_entry_def dict_getitem_def)
next
  fix k st'
  assume "map_of (folders cfg) ''other'' \<noteq> None"
  with assms show "scan_entry fnmatch now cfg e st \<noteq> Inl (KeyError k, st')"
    by (auto simp: scan_entry_def dict_getitem_def Let_def split: prod.splits option.splits)
next
  fix err st' and clock :: "nat \<Rightarrow> real" and world :: "nat \<Rightarrow> filesystem \<Rightarrow> filesystem"
    and k :: nat and fs
  assume "scan_once fnmatch (clock k) cfg fs = Inl (err, st')"
  then show "janitor_cycles fnmatch clock world cfg k fs = Some (err, files st')"
    by (rule janitor_cycles_raise)
next
  show "map_of (folders default_settings) ''other'' = Some ''Other''"
    by (simp add: default_settings_def default_folders_def)
qed

theorem missing_other_aborts_witness:
  "scan_entries fnmatch_plain 1000 no_other_settings
     [[''/'', ''downloads'', ''title.ttf''], [''/'', ''downloads'', ''a.pdf'']] (initial_state one_font)
     = Inl (KeyError ''other'', initial_state one_font)
   \<and> scan_once fnmatch_plain 1000 no_other_settings one_font
     = Inl (KeyError ''other'', initial_state one_font)
   \<and> janitor_cycles fnmatch_plain (\<lambda>k. 1000) (\<lambda>k fs. fs) no_other_settings 0 one_font
     = Some (KeyError ''other'', one_font)
   \<and> raised (scan_once fnmatch_plain 1000 default_settings one_font) = None"
proof -
  let ?st = "initial_state one_font" and ?e = "[''/'', ''downloads'', ''title.ttf'']"
  have h: "\<not> is_dir (files ?st) ?e"
    "\<not> matches_any fnmatch_plain (path_name ?e) (ignore no_other_settings)"
    "is_recent (files ?st) 1000 ?e (min_file_age_seconds no_other_settings) = Inr False"
    "\<not> is_in_top_folder ?e (root_dir no_other_settings) (protected_folders no_other_settings)"
    by (simp_all add: one_font_def no_other_settings_def scan_eval fs_eval)
  have none: "map_of (folders no_other_settings) ''other'' = None"
    by (simp add: no_other_settings_def default_folders_def)
  note inst = missing_other_aborts [OF h, of "[[''/'', ''downloads'', ''a.pdf'']]"]
  from inst none have 1: "scan_entries fnmatch_plain 1000 no_other_settings
     [?e, [''/'', ''downloads'', ''a.pdf'']] ?st = Inl (KeyError ''other'', ?st)"
    by blast
  have "iterdir one_font (root_dir no_other_settings) = Inr [?e, [''/'', ''downloads'', ''a.pdf'']]"
    by (simp add: one_font_def no_other_settings_def default_settings_def fs_eval)
  with 1 have 2: "scan_once fnmatch_plain 1000 no_other_settings one_font
                   = Inl (KeyError ''other'', ?st)"
    by (simp add: scan_once_def)
  from 2 janitor_cycles_raise [of fnmatch_plain "\<lambda>k. 1000" 0 no_other_settings one_font]
  have 3: "janitor_cycles fnmatch_plain (\<lambda>k. 1000) (\<lambda>k fs. fs) no_other_settings 0 one_font
          = Some (KeyError ''other'', one_font)"
    by (simp add: initial_state_def)
  have 4: "raised (scan_once fnmatch_plain 1000 default_settings one_font) = None"
    by (simp add: one_font_def scan_eval fs_eval unique_target_path_eval)
  from 1 2 3 4 show ?thesis by simp
qed

section \<open>Dev Git Overview: discovery\<close>

text \<open>
  What \<^verbatim>\<open>os.walk\<close> sees below the root: each directory lists its subdirectories by name,
  in order. \<open>Unwalkable\<close> is a name that \<^verbatim>\<open>os.walk\<close> lists among the directories but does
  not enter: a symbolic link to a directory, or a directory that cannot be read.
\<close>

datatype dir_tree = Tree "(string \<times> dir_tree) list" | Unwalkable

record DevGitOverviewSettings =
  repo_root :: path
  repo_scan_interval_seconds :: int
  max_depth :: int
  ignore_dirs :: "string list"
  repo_obsidian :: "(string \<times> string) list"

text \<open>
  One record for each directory the walk yields: its path, its depth below the root,
  whether it was appended to \<open>repos\<close>, and what the loop body left in \<open>dirnames\<close>, the
  names the walk goes on into.
\<close>

record visit =
  v_path :: path
  v_depth :: int
  v_recorded :: bool
  v_descent :: "string list"

fun walk :: "DevGitOverviewSettings \<Rightarrow> path \<Rightarrow> dir_tree \<Rightarrow> visit list" where
  "walk cfg current Unwalkable = []"
| "walk cfg current (Tree children) =
     (let dirnames = map fst children;
          depth = int (length current) - int (length (repo_root cfg))
      in if max_depth cfg \<ge> 0 \<and> depth > max_depth cfg
         then [\<lparr>v_path = current, v_depth = depth, v_recorded = False, v_descent = []\<rparr>]
         else if ''.git'' \<in> set dirnames
         then [\<lparr>v_path = current, v_depth = depth, v_recorded = True, v_descent = []\<rparr>]
         else
           \<lparr>v_path = current, v_depth = depth, v_recorded = False,
             v_descent = filter (\<lambda>name. name \<notin> set (ignore_dirs cfg)) dirnames\<rparr>
           # concat (map (\<lambda>(name, sub). walk cfg (current @ [name]) sub)
                      (filter (\<lambda>(name, sub). name \<notin> set (ignore_dirs cfg)) children)))"



subsection \<open>The shape of the walk\<close>









text \<open>
  The default settings with the depth limit lowered to 2, and a tree with a repository
  \<open>a\<close> that holds another one, a repository inside \<open>node_modules\<close>, a repository four
  levels down, and a link.
\<close>

definition dev_settings :: DevGitOverviewSettings where
  "dev_settings =
     \<lparr>repo_root = [''/'', ''dev_projects''], repo_scan_interval_seconds = 900, max_depth = 2,
      ignore_dirs = [''node_modules'', ''.venv'', ''venv'', ''__pycache__''], repo_obsidian = []\<rparr>"

definition dev_tree :: dir_tree where
  "dev_tree =
     Tree [(''a'', Tree [(''.git'', Tree []), (''vendored'', Tree [(''.git'', Tree [])])]),
           (''node_modules'', Tree [(''pkg'', Tree [(''.git'', Tree [])])]),
           (''b'', Tree [(''c'', Tree [(''d'', Tree [(''e'', Tree [(''.git'', Tree [])])])])]),
           (''shared'', Unwalkable)]"

lemma dev_tree_walk:
  "walk dev_settings (repo_root dev_settings) dev_tree =
     [\<lparr>v_path = [''/'', ''dev_projects''], v_depth = 0, v_recorded = False,
        v_descent = [''a'', ''b'', ''shared'']\<rparr>,
      \<lparr>v_path = [''/'', ''dev_projects'', ''a''], v_depth = 1, v_recorded = True, v_descent = []\<rparr>,
      \<lparr>v_path = [''/'', ''dev_projects'', ''b''], v_depth = 1, v_recorded = False,
        v_descent = [''c'']\<rparr>,
      \<lparr>v_path = [''/'', ''dev_projects'', ''b'', ''c''], v_depth = 2, v_recorded = False,
        v_descent = [''d'']\<rparr>,
      \<lparr>v_path = [''/'', ''dev_projects'', ''b'', ''c'', ''d''], v_depth = 3, v_recorded = False,
        v_descent = []\<rparr>]"
  by (simp add: dev_settings_def dev_tree_def Let_def)

text \<open>
  The depth is tested in the loop body, for a directory the walk has reached: with
  \<open>max_depth = 2\<close> the directory \<open>b/c/d\<close> at depth 3 is still listed, and pruned there.
\<close>

lemma dev_tree_pruned_on_arrival:
  "\<exists>v \<in> set (walk dev_settings (repo_root dev_settings) dev_tree).
     max_depth dev_settings < v_depth v \<and> v_descent v = []
     \<and> v_path v = [''/'', ''dev_projects'', ''b'', ''c'', ''d'']"
  by (simp only: dev_tree_walk) (simp add: dev_settings_def)



section \<open>Dev Git Overview: when a repository was last pushed\<close>

text \<open>
  \<^verbatim>\<open>subprocess.run\<close> either raises or completes with a return code and the text of
  standard output. What \<^verbatim>\<open>git -C repo_path\<close> answers to each argument list is a
  parameter. \<^verbatim>\<open>datetime.fromisoformat\<close> is a parameter too: it yields the wall-clock
  reading in microseconds and the UTC offset, if the text has one.
\<close>

datatype proc_result = Raised | Completed int string

type_synonym git = "string list \<Rightarrow> proc_result"

record iso_datetime =
  wall_clock :: int
  utc_offset :: "int option"

definition whitespace :: "char list" where
  "whitespace = [CHR '' '', CHR 0x09, CHR 0x0A, CHR 0x0B, CHR 0x0C, CHR 0x0D,
                 CHR 0x1C, CHR 0x1D, CHR 0x1E, CHR 0x1F]"

definition strip :: "string \<Rightarrow> string" where
  "strip s =
     rev (dropWhile (\<lambda>c. c \<in> set whitespace) (rev (dropWhile (\<lambda>c. c \<in> set whitespace) s)))"

text \<open>
  \<^verbatim>\<open>str.splitlines\<close>: a line ends at a line feed, a carriage return (with the line feed
  that follows it, if any), or one of the other ASCII line boundaries; the text after the
  last boundary is a line when it is not empty.
\<close>

fun splitlines_from :: "string \<Rightarrow> string \<Rightarrow> string list" where
  "splitlines_from cur [] = (if cur = [] then [] else [cur])"
| "splitlines_from cur (c # cs) =
     (if c = CHR 0x0D then
        (case cs of
           d # ds \<Rightarrow> if d = CHR 0x0A then cur # splitlines_from [] ds
                     else cur # splitlines_from [] cs
         | [] \<Rightarrow> cur # splitlines_from [] cs)
      else if c \<in> set [CHR 0x0A, CHR 0x0B, CHR 0x0C, CHR 0x1C, CHR 0x1D, CHR 0x1E]
      then cur # splitlines_from [] cs
      else splitlines_from (cur @ [c]) cs)"

definition splitlines :: "string \<Rightarrow> string list" where
  "splitlines s = splitlines_from [] s"

definition run_git :: "git \<Rightarrow> string list \<Rightarrow> string option" where
  "run_git git args =
     (case git args of
        Raised \<Rightarrow> None
      | Completed returncode stdout \<Rightarrow> if returncode \<noteq> 0 then None else Some (strip stdout))"

definition parse_git_datetime :: "(string \<Rightarrow> iso_datetime option) \<Rightarrow> string \<Rightarrow> datetime option" where
  "parse_git_datetime fromisoformat v =
     (case fromisoformat (strip v) of
        None \<Rightarrow> None
      | Some parsed \<Rightarrow>
          (case utc_offset parsed of
             None \<Rightarrow> Some (wall_clock parsed)
           | Some off \<Rightarrow> Some (wall_clock parsed - off)))"

text \<open>The loop over the lines of the reflog: the first line that qualifies decides.\<close>

fun scan_reflog :: "string list \<Rightarrow> string option" where
  "scan_reflog [] = None"
| "scan_reflog (line # rest) =
     (if CHR ''|'' \<notin> set line then scan_reflog rest
      else
        let when = takeWhile (\<lambda>c. c \<noteq> CHR ''|'') line;
            message = tl (dropWhile (\<lambda>c. c \<noteq> CHR ''|'') line)
        in if sublist ''update by push'' (lower message) then Some when
           else scan_reflog rest)"

definition upstream_ref :: string where
  "upstream_ref = CHR ''@'' # ''{u}''"

definition upstream_args :: "string list" where
  "upstream_args = [''rev-parse'', ''--abbrev-ref'', ''--symbolic-full-name'', upstream_ref]"

definition reflog_args :: "string \<Rightarrow> string list" where
  "reflog_args upstream =
     [''reflog'', ''show'', ''--date=iso-strict'', ''--format=%cd|%gs'', upstream, ''-n'', ''100'']"

definition tip_args :: "string list" where
  "tip_args = [''log'', ''-1'', ''--date=iso-strict'', ''--format=%cd'', upstream_ref]"

definition resolve_last_push ::
  "(string \<Rightarrow> iso_datetime option) \<Rightarrow> git \<Rightarrow> string \<times> datetime option" where
  "resolve_last_push fromisoformat git =
     (case run_git git upstream_args of
        None \<Rightarrow> (''no upstream'', None)
      | Some upstream \<Rightarrow>
          (case (case run_git git (reflog_args upstream) of
                   None \<Rightarrow> None
                 | Some reflog \<Rightarrow> if reflog \<noteq> [] then scan_reflog (splitlines reflog) else None) of
             Some when \<Rightarrow> (when, parse_git_datetime fromisoformat when)
           | None \<Rightarrow>
               (case run_git git tip_args of
                  None \<Rightarrow> (''unknown'', None)
                | Some upstream_commit_date \<Rightarrow>
                    if upstream_commit_date \<noteq> []
                    then (upstream_commit_date,
                          parse_git_datetime fromisoformat upstream_commit_date)
                    else (''unknown'', None))))"

text \<open>
  In the words of the specification: a reflog line is push-tagged when it has a bar and
  the text after its first bar contains \<open>update by push\<close>, whatever the case of the
  letters; its timestamp is the text before the bar.
\<close>

definition push_tagged :: "string \<Rightarrow> bool" where
  "push_tagged line \<longleftrightarrow>
     (\<exists>w message. line = w @ CHR ''|'' # message \<and> CHR ''|'' \<notin> set w
        \<and> sublist ''update by push'' (lower message))"

definition timestamp_of :: "string \<Rightarrow> string" where
  "timestamp_of line = takeWhile (\<lambda>c. c \<noteq> CHR ''|'') line"

text \<open>The push-tagged timestamp that the reflog query yields, if any.\<close>

definition pushed_at :: "git \<Rightarrow> string \<Rightarrow> string option" where
  "pushed_at git upstream =
     (case run_git git (reflog_args upstream) of
        None \<Rightarrow> None
      | Some reflog \<Rightarrow> if reflog \<noteq> [] then scan_reflog (splitlines reflog) else None)"

text \<open>Answers of git given as a table; an argument list not in the table fails.\<close>

definition git_of :: "(string list \<times> proc_result) list \<Rightarrow> git" where
  "git_of answers args = (case map_of answers args of None \<Rightarrow> Completed 128 [] | Some r \<Rightarrow> r)"

text \<open>\<^verbatim>\<open>fromisoformat\<close> on the two timestamps of the examples; anything else is no date.\<close>

definition iso_examples :: "string \<Rightarrow> iso_datetime option" where
  "iso_examples s =
     map_of [(''2024-05-01T10:00:00+00:00'', \<lparr>wall_clock = 1714557600000000, utc_offset = Some 0\<rparr>),
             (''2024-04-20T08:30:00+02:00'',
                \<lparr>wall_clock = 1713601800000000, utc_offset = Some 7200000000\<rparr>)] s"

end
